theory Spec2Isabelle
  imports Main "HOL-Library.Product_Lexorder"
begin

section \<open>Data model (gestion/models.py)\<close>

text \<open>
  A \<open>datetime.time\<close> value has the four fields below. Python compares two naive times as
  the tuples (hour, minute, second, microsecond), and so does the database on a TIME column.
\<close>

record time =
  hour :: nat
  minute :: nat
  second :: nat
  microsecond :: nat

definition time_tuple :: "time \<Rightarrow> nat \<times> nat \<times> nat \<times> nat" where
  "time_tuple t = (hour t, minute t, second t, microsecond t)"

definition time_lt :: "time \<Rightarrow> time \<Rightarrow> bool" where
  "time_lt a b = (time_tuple a < time_tuple b)"

text \<open>
  \<^verbatim>\<open>time(hour=h, minute=m)\<close> and \<^verbatim>\<open>time(hour=h)\<close> (minute 0): seconds and microseconds
  are zero. Every call of the source passes an hour below 24 and a minute below 60.
\<close>

definition mk_time :: "nat \<Rightarrow> nat \<Rightarrow> time" where
  "mk_time h m = \<lparr>hour = h, minute = m, second = 0, microsecond = 0\<rparr>"

text \<open>\<^verbatim>\<open>Reserva.ESTADOS\<close>.\<close>

datatype estado = Confirmada | Cancelada | Completada | No_show

text \<open>
  The value of a column \<^verbatim>\<open>DecimalField(max_digits=8, decimal_places=2)\<close>
  (\<^verbatim>\<open>Cancha.tarifa_hora\<close>, \<^verbatim>\<open>Reserva.precio_total\<close>): a number of hundredths of at most
  eight digits. \<open>centavos\<close> reads the number of hundredths, \<open>monto_de\<close> builds the value.
\<close>

typedef monto = "{h :: int. - 100000000 < h \<and> h < 100000000}"
  morphisms centavos monto_de
  by (rule exI[of _ 0]) simp

text \<open>
  A finite \<^verbatim>\<open>decimal.Decimal\<close> in memory: \<open>Decimal c e\<close> is the number \<open>c\<close> times ten to
  the power \<open>e\<close> (the coefficient with its sign, and the exponent). An \<^verbatim>\<open>int\<close> \<open>n\<close> given
  for a price is \<open>Decimal n 0\<close>; floats, NaN and the infinities are left out.
\<close>

datatype decimal = Decimal int int

text \<open>\<^verbatim>\<open>not d\<close>: a Decimal is false exactly when its coefficient is zero.\<close>

fun es_cero :: "decimal \<Rightarrow> bool" where
  "es_cero (Decimal c e) = (c = 0)"

text \<open>The Decimal that the ORM builds from a column value: two decimal places.\<close>

definition to_decimal :: "monto \<Rightarrow> decimal" where
  "to_decimal m = Decimal (centavos m) (- 2)"

text \<open>
  \<^verbatim>\<open>Cancha\<close>, a row of the table of courts as \<^verbatim>\<open>Cancha.objects.get\<close> loads it: the primary
  key, the name, the hourly tariff and the active flag. The surface type, the description
  and the capacity play no part in the operations below.
\<close>

record cancha =
  id_cancha :: nat
  nombre :: string
  tarifa_hora :: monto
  activa :: bool

text \<open>
  \<^verbatim>\<open>Reserva\<close>. \<open>id_reserva\<close> is None until the row is inserted; \<open>cancha\<close> and \<open>jugador\<close>
  hold the keys of the referenced rows; \<open>fecha_reserva\<close> is the date as a day number;
  \<open>hora_fin\<close> is None until \<^verbatim>\<open>save\<close> fills it in. The type of \<open>precio_total\<close> is a
  parameter: a row of the table holds a column value (\<open>reserva\<close>), an instance in memory
  holds whatever Decimal was assigned to the attribute (\<open>instancia\<close>).
\<close>

record 'p reserva_de =
  id_reserva :: "nat option"
  cancha :: nat
  jugador :: nat
  fecha_reserva :: int
  hora_inicio :: time
  hora_fin :: "time option"
  estado :: estado
  notas :: "string option"
  precio_total :: 'p

type_synonym reserva = "monto reserva_de"

type_synonym instancia = "decimal reserva_de"

text \<open>The instance that the ORM builds from a row (\<^verbatim>\<open>Model.from_db\<close>).\<close>

definition from_db :: "reserva \<Rightarrow> instancia" where
  "from_db r =
     \<lparr>id_reserva = id_reserva r, cancha = cancha r, jugador = jugador r,
      fecha_reserva = fecha_reserva r, hora_inicio = hora_inicio r, hora_fin = hora_fin r,
      estado = estado r, notas = notas r, precio_total = to_decimal (precio_total r)\<rparr>"

text \<open>The persistent store: the table of courts and the table of reservations.\<close>

record db =
  canchas :: "cancha list"
  reservas :: "reserva list"

datatype error = IntegrityError | DoesNotExist | ValueError | InvalidOperation

section \<open>Availability (Cancha.esta_disponible, Cancha.get_horarios_disponibles)\<close>

text \<open>The lookup \<^verbatim>\<open>hora_fin__gt=t\<close> on a row: a NULL column matches nothing.\<close>

definition hora_fin_gt :: "reserva \<Rightarrow> time \<Rightarrow> bool" where
  "hora_fin_gt r t = (case hora_fin r of None \<Rightarrow> False | Some e \<Rightarrow> time_lt t e)"

text \<open>
  \<^verbatim>\<open>self.reservas.filter(fecha_reserva=fecha, estado='confirmada')\<close>: the confirmed
  reservations of the court on the date.
\<close>

definition confirmadas_del_dia :: "cancha \<Rightarrow> int \<Rightarrow> reserva list \<Rightarrow> reserva list" where
  "confirmadas_del_dia self fecha rows =
     filter (\<lambda>r. cancha r = id_cancha self \<and> fecha_reserva r = fecha \<and> estado r = Confirmada) rows"

text \<open>The end time the check assumes when none is given: \<^verbatim>\<open>time(hour=(hora_inicio.hour + 1) % 24)\<close>.\<close>

definition hora_fin_asumida :: "time \<Rightarrow> time" where
  "hora_fin_asumida ini = mk_time ((hour ini + 1) mod 24) 0"

definition esta_disponible :: "cancha \<Rightarrow> int \<Rightarrow> time \<Rightarrow> time option \<Rightarrow> reserva list \<Rightarrow> bool" where
  "esta_disponible self fecha ini fin_opt rows =
     (if \<not> activa self then False
      else
        let fin = (case fin_opt of
                     None \<Rightarrow> hora_fin_asumida ini
                   | Some f \<Rightarrow> f);
            conflictos = filter (\<lambda>r. time_lt (hora_inicio r) fin \<and> hora_fin_gt r ini)
                           (confirmadas_del_dia self fecha rows)
        in conflictos = [])"

definition get_reservas_del_dia :: "cancha \<Rightarrow> int \<Rightarrow> reserva list \<Rightarrow> reserva list" where
  "get_reservas_del_dia self fecha rows =
     sort_key (\<lambda>r. time_tuple (hora_inicio r)) (confirmadas_del_dia self fecha rows)"

definition get_horarios_disponibles :: "cancha \<Rightarrow> int \<Rightarrow> reserva list \<Rightarrow> time list" where
  "get_horarios_disponibles self fecha rows =
     (if \<not> activa self then []
      else
        let horarios_funcionamiento = map (\<lambda>hora. mk_time hora 0) [8..<22];
            horarios_ocupados = map hora_inicio (get_reservas_del_dia self fecha rows)
        in filter (\<lambda>horario. horario \<notin> set horarios_ocupados) horarios_funcionamiento)"

section \<open>Persistence (Reserva.Meta.constraints, Reserva.save)\<close>

text \<open>
  The partial unique constraint \<^verbatim>\<open>unique_confirmed_reservation\<close>: a confirmed row may
  not share (cancha, fecha_reserva, hora_inicio) with another confirmed row.
\<close>

definition viola_unique :: "reserva \<Rightarrow> reserva list \<Rightarrow> bool" where
  "viola_unique r rows =
     (estado r = Confirmada \<and>
      (\<exists>x \<in> set rows. id_reserva x \<noteq> id_reserva r \<and> estado x = Confirmada \<and>
         cancha x = cancha r \<and> fecha_reserva x = fecha_reserva r \<and>
         hora_inicio x = hora_inicio r))"

text \<open>The key the database gives a new row: one more than the largest key in the table.\<close>

definition fresh_id :: "reserva list \<Rightarrow> nat" where
  "fresh_id rows = Suc (fold max (map (\<lambda>r. case id_reserva r of None \<Rightarrow> 0 | Some i \<Rightarrow> i) rows) 0)"

text \<open>
  INSERT and UPDATE of one row. The database refuses a NULL \<open>hora_fin\<close>, a duplicate
  primary key and a violation of the partial unique constraint with an IntegrityError.
\<close>

definition db_insert :: "reserva \<Rightarrow> reserva list \<Rightarrow> error + (reserva \<times> reserva list)" where
  "db_insert r rows =
     (if hora_fin r = None \<or> id_reserva r = None \<or> (\<exists>x \<in> set rows. id_reserva x = id_reserva r)
         \<or> viola_unique r rows
      then Inl IntegrityError
      else Inr (r, rows @ [r]))"

definition db_update :: "reserva \<Rightarrow> reserva list \<Rightarrow> error + (reserva \<times> reserva list)" where
  "db_update r rows =
     (if hora_fin r = None \<or> viola_unique r rows
      then Inl IntegrityError
      else Inr (r, map (\<lambda>x. if id_reserva x = id_reserva r then r else x) rows))"

text \<open>
  \<^verbatim>\<open>models.Model.save\<close>, once the values are prepared for the columns: an instance
  without a key is inserted under a fresh key; an instance with a key updates its row, or
  is inserted when the table has no such row.
\<close>

definition model_save :: "reserva \<Rightarrow> reserva list \<Rightarrow> error + (reserva \<times> reserva list)" where
  "model_save r rows =
     (case id_reserva r of
        None \<Rightarrow> db_insert (r\<lparr>id_reserva := Some (fresh_id rows)\<rparr>) rows
      | Some i \<Rightarrow>
          if (\<exists>x \<in> set rows. id_reserva x = Some i) then db_update r rows
          else db_insert r rows)"

text \<open>
  The body of \<^verbatim>\<open>Reserva.save\<close> before \<^verbatim>\<open>super().save\<close>. The first argument is the
  court that \<^verbatim>\<open>self.cancha\<close> evaluates to. \<^verbatim>\<open>not self.precio_total\<close> holds exactly for
  a zero price (0, 0.00, 0E+3); \<^verbatim>\<open>not self.hora_fin\<close> holds exactly for None.
\<close>

definition computeEnd_spec :: "time \<Rightarrow> time" where
  \<comment> \<open>The specification's \<open>computeEnd\<close>: start + 1 hour, wrapping modulo 24.\<close>
  "computeEnd_spec t = t\<lparr>hour := (hour t + 1) mod 24\<rparr>"

definition save_defaults :: "cancha \<Rightarrow> instancia \<Rightarrow> instancia" where
  "save_defaults c r =
     (let r1 = (if es_cero (precio_total r) then r\<lparr>precio_total := to_decimal (tarifa_hora c)\<rparr> else r)
      in case hora_fin r1 of
           None \<Rightarrow>
             (let hora_fin_int = (hour (hora_inicio r1) + 1) mod 24
              in r1\<lparr>hora_fin := Some (mk_time hora_fin_int (minute (hora_inicio r1)))\<rparr>)
         | Some _ \<Rightarrow> r1)"

text \<open>
  What \<^verbatim>\<open>super().save\<close> writes in the price column. \<^verbatim>\<open>DecimalField.get_db_prep_save\<close>
  hands the Decimal to \<^verbatim>\<open>django.db.backends.utils.format_number\<close>, which calls
  \<^verbatim>\<open>value.quantize(Decimal('0.01'))\<close> in a context of precision \<open>max_digits\<close>: the value is
  rounded to hundredths, a tie going to the even neighbour (ROUND_HALF_EVEN, the rounding
  of the default context), and \<^verbatim>\<open>decimal.InvalidOperation\<close> is raised when the result has
  more than eight digits. \<open>round_half_even n d\<close> is \<open>n / d\<close> so rounded, for \<open>d\<close> positive;
  \<open>quantize\<close> is the number of hundredths of the rounded value.
\<close>

definition round_half_even :: "int \<Rightarrow> int \<Rightarrow> int" where
  "round_half_even n d =
     (let q = n div d; r = n mod d
      in if 2 * r < d then q else if d < 2 * r then q + 1 else if even q then q else q + 1)"

fun quantize :: "decimal \<Rightarrow> int" where
  "quantize (Decimal c e) =
     (if - 2 \<le> e then c * 10 ^ nat (e + 2) else round_half_even c (10 ^ nat (- 2 - e)))"

definition format_number :: "decimal \<Rightarrow> error + monto" where
  "format_number d =
     (let h = quantize d
      in if - 100000000 < h \<and> h < 100000000 then Inr (monto_de h) else Inl InvalidOperation)"

text \<open>The row of column values of an instance; the other fields are written as they are.\<close>

definition get_db_prep_save :: "instancia \<Rightarrow> error + reserva" where
  "get_db_prep_save r =
     (case format_number (precio_total r) of
        Inl e \<Rightarrow> Inl e
      | Inr p \<Rightarrow>
          Inr \<lparr>id_reserva = id_reserva r, cancha = cancha r, jugador = jugador r,
               fecha_reserva = fecha_reserva r, hora_inicio = hora_inicio r, hora_fin = hora_fin r,
               estado = estado r, notas = notas r, precio_total = p\<rparr>)"

text \<open>
  \<^verbatim>\<open>Reserva.save\<close>: the defaults, then \<^verbatim>\<open>super().save\<close>. The result is the row as written
  and the table after the call.
\<close>

definition Reserva_save :: "cancha \<Rightarrow> instancia \<Rightarrow> reserva list \<Rightarrow> error + (reserva \<times> reserva list)" where
  "Reserva_save c r rows =
     (case get_db_prep_save (save_defaults c r) of
        Inl e \<Rightarrow> Inl e
      | Inr fila \<Rightarrow> model_save fila rows)"

text \<open>
  \<^verbatim>\<open>Reserva.objects.create(cancha=, jugador=, fecha_reserva=, hora_inicio=, **kwargs)\<close>.
  The four fields without a default are given by every call of the source. The others are
  keyword arguments that a call may leave out (None): \<^verbatim>\<open>views.reserva_rapida\<close> gives
  \<^verbatim>\<open>precio_total\<close>, \<^verbatim>\<open>init_data.py\<close> gives \<^verbatim>\<open>estado\<close> and \<^verbatim>\<open>notas\<close>, the tests give none.
  \<^verbatim>\<open>Reserva(**kwargs)\<close> fills a field left out with its default (\<open>estado\<close> confirmed,
  \<open>precio_total\<close> 0, no notes, no end time and no key), then \<^verbatim>\<open>save\<close> runs.
\<close>

record kwargs =
  kw_hora_fin :: "time option"
  kw_estado :: "estado option"
  kw_notas :: "string option"
  kw_precio_total :: "decimal option"

definition sin_kwargs :: kwargs where
  "sin_kwargs = \<lparr>kw_hora_fin = None, kw_estado = None, kw_notas = None, kw_precio_total = None\<rparr>"

definition Reserva_init :: "cancha \<Rightarrow> nat \<Rightarrow> int \<Rightarrow> time \<Rightarrow> kwargs \<Rightarrow> instancia" where
  "Reserva_init c jug fecha ini kw =
     \<lparr>id_reserva = None, cancha = id_cancha c, jugador = jug, fecha_reserva = fecha,
      hora_inicio = ini, hora_fin = kw_hora_fin kw,
      estado = (case kw_estado kw of None \<Rightarrow> Confirmada | Some e \<Rightarrow> e),
      notas = kw_notas kw,
      precio_total = (case kw_precio_total kw of None \<Rightarrow> Decimal 0 0 | Some p \<Rightarrow> p)\<rparr>"

definition Reserva_objects_create ::
  "cancha \<Rightarrow> nat \<Rightarrow> int \<Rightarrow> time \<Rightarrow> kwargs \<Rightarrow> reserva list \<Rightarrow> error + (reserva \<times> reserva list)" where
  "Reserva_objects_create c jug fecha ini kw rows =
     Reserva_save c (Reserva_init c jug fecha ini kw) rows"

text \<open>
  The keyword arguments of a call that gives at most a price, and gives it as the value
  of a price or tariff column: \<^verbatim>\<open>views.reserva_rapida\<close> gives \<^verbatim>\<open>cancha.tarifa_hora\<close>.
\<close>

definition kw_precio :: "monto option \<Rightarrow> kwargs" where
  "kw_precio p = sin_kwargs\<lparr>kw_precio_total := map_option to_decimal p\<rparr>"

section \<open>Lifecycle (Reserva.puede_cancelar, Reserva.cancelar)\<close>

text \<open>\<open>hoy\<close> is \<^verbatim>\<open>timezone.now().date()\<close> at the moment of the call.\<close>

definition puede_cancelar :: "int \<Rightarrow> reserva \<Rightarrow> bool" where
  "puede_cancelar hoy self = (estado self = Confirmada \<and> fecha_reserva self \<ge> hoy)"

text \<open>
  \<^verbatim>\<open>cancelar\<close>, called on an instance loaded from the row \<open>self\<close> (the view and the admin
  action load it), returns the flag, the row of the instance after the call and the table
  after the call. \<open>usuario_cancelacion\<close> is the full name of the acting user, None when no
  user is passed. The court is what \<^verbatim>\<open>self.cancha\<close> evaluates to inside \<^verbatim>\<open>save\<close>.
\<close>

definition cancelar ::
  "int \<Rightarrow> cancha \<Rightarrow> string option \<Rightarrow> reserva \<Rightarrow> reserva list
     \<Rightarrow> error + (bool \<times> reserva \<times> reserva list)" where
  "cancelar hoy c usuario_cancelacion self rows =
     (if puede_cancelar hoy self then
        let r1 = self\<lparr>estado := Cancelada\<rparr>;
            r2 = (case usuario_cancelacion of
                    None \<Rightarrow> r1
                  | Some nombre_completo \<Rightarrow> r1\<lparr>notas := Some (''Cancelada por: '' @ nombre_completo)\<rparr>)
        in case Reserva_save c (from_db r2) rows of
             Inl e \<Rightarrow> Inl e
           | Inr (r3, rows') \<Rightarrow> Inr (True, r3, rows')
      else Inr (False, self, rows))"

section \<open>Quick booking (views.reserva_rapida)\<close>

datatype metodo = GET | POST

text \<open>
  The request: the method, the logged-in user and the three POST parameters. A parameter
  that \<^verbatim>\<open>strptime\<close> cannot read is None; the time parameter, in the format
  \<^verbatim>\<open>%H:%M\<close>, is a pair of numbers.
\<close>

record peticion =
  metodo :: metodo
  usuario :: nat
  cancha_id :: "nat option"
  fecha :: "int option"
  hora :: "(nat \<times> nat) option"

text \<open>
  The JSON answers of the view: success, \<^verbatim>\<open>'El horario ya no esta disponible.'\<close>,
  \<^verbatim>\<open>'Error al crear la reserva.'\<close> and \<^verbatim>\<open>'Metodo no permitido.'\<close>.
\<close>

datatype respuesta = Exito | No_disponible | Error_crear | Metodo_no_permitido

text \<open>\<^verbatim>\<open>datetime.strptime(hora_str, '%H:%M').time()\<close>; None stands for the ValueError.\<close>

definition strptime_hora :: "(nat \<times> nat) option \<Rightarrow> time option" where
  "strptime_hora x =
     (case x of
        None \<Rightarrow> None
      | Some (h, m) \<Rightarrow> if h < 24 \<and> m < 60 then Some (mk_time h m) else None)"

text \<open>\<^verbatim>\<open>Cancha.objects.get(id=cancha_id, activa=True)\<close>; None stands for DoesNotExist.\<close>

definition get_cancha_activa :: "cancha list \<Rightarrow> nat option \<Rightarrow> cancha option" where
  "get_cancha_activa cs i = find (\<lambda>c. Some (id_cancha c) = i \<and> activa c) cs"

definition reserva_rapida :: "peticion \<Rightarrow> db \<Rightarrow> respuesta \<times> db" where
  "reserva_rapida request s =
     (if metodo request = POST then
        (case get_cancha_activa (canchas s) (cancha_id request) of
           None \<Rightarrow> (Error_crear, s)
         | Some c \<Rightarrow>
            (case fecha request of
               None \<Rightarrow> (Error_crear, s)
             | Some fecha_reserva' \<Rightarrow>
                (case strptime_hora (hora request) of
                   None \<Rightarrow> (Error_crear, s)
                 | Some hora_inicio' \<Rightarrow>
                    if esta_disponible c fecha_reserva' hora_inicio' None (reservas s) then
                      (case Reserva_objects_create c (usuario request) fecha_reserva' hora_inicio'
                              (kw_precio (Some (tarifa_hora c))) (reservas s) of
                         Inl e \<Rightarrow> (Error_crear, s)
                       | Inr (r, rows') \<Rightarrow> (Exito, s\<lparr>reservas := rows'\<rparr>))
                    else (No_disponible, s))))
      else (Metodo_no_permitido, s))"

section \<open>Form validators (ReservaForm.clean_fecha_reserva, ReservaForm.clean_hora_inicio)\<close>

datatype validation_error = Fecha_pasada | Fuera_de_horario

definition clean_fecha_reserva :: "int \<Rightarrow> int \<Rightarrow> validation_error + int" where
  "clean_fecha_reserva hoy f = (if f < hoy then Inl Fecha_pasada else Inr f)"

definition clean_hora_inicio :: "time \<Rightarrow> validation_error + time" where
  "clean_hora_inicio h = (if hour h < 8 \<or> hour h \<ge> 22 then Inl Fuera_de_horario else Inr h)"

text \<open>
  The end time that \<^verbatim>\<open>ReservaForm.clean\<close> passes to the availability check and that
  \<^verbatim>\<open>ReservaForm.save\<close> stores: the same expression at both places.
\<close>

definition form_hora_fin :: "time \<Rightarrow> time" where
  "form_hora_fin h = mk_time ((hour h + 1) mod 24) (minute h)"

section \<open>The store as a state machine\<close>

definition get_reserva :: "reserva list \<Rightarrow> nat \<Rightarrow> reserva option" where
  "get_reserva rows i = find (\<lambda>r. id_reserva r = Some i) rows"

definition get_cancha :: "cancha list \<Rightarrow> nat \<Rightarrow> cancha option" where
  "get_cancha cs i = find (\<lambda>c. id_cancha c = i) cs"

text \<open>
  The admin actions \<^verbatim>\<open>marcar_completadas\<close> and \<^verbatim>\<open>marcar_no_show\<close>:
  \<^verbatim>\<open>queryset.filter(estado='confirmada').update(estado=...)\<close> on the selected keys.
\<close>

definition marcar :: "estado \<Rightarrow> nat list \<Rightarrow> reserva list \<Rightarrow> reserva list" where
  "marcar e sel rows =
     map (\<lambda>r. if id_reserva r \<in> Some ` set sel \<and> estado r = Confirmada then r\<lparr>estado := e\<rparr> else r) rows"

definition marcar_completadas :: "nat list \<Rightarrow> reserva list \<Rightarrow> reserva list" where
  "marcar_completadas = marcar Completada"

definition marcar_no_show :: "nat list \<Rightarrow> reserva list \<Rightarrow> reserva list" where
  "marcar_no_show = marcar No_show"

text \<open>
  The operations that write to the store: the quick booking; the cancellation of the
  stored reservation with a given key (the view \<^verbatim>\<open>cancelar_reserva\<close> and the admin
  action \<^verbatim>\<open>cancelar_reservas\<close>), on the day \<open>hoy\<close>; the two bulk status changes;
  \<^verbatim>\<open>Reserva.save\<close> of any instance (the booking form and the admin forms end in it);
  and the creation or edition of a court.
\<close>

datatype operacion =
    Op_reserva_rapida peticion
  | Op_cancelar int "string option" nat
  | Op_marcar_completadas "nat list"
  | Op_marcar_no_show "nat list"
  | Op_guardar_reserva instancia
  | Op_guardar_cancha cancha

text \<open>
  A stored reservation names a stored court (the foreign key), so the lookup of the court
  finds it; an exception leaves the store as it was.
\<close>

fun ejecutar :: "operacion \<Rightarrow> db \<Rightarrow> db" where
  "ejecutar (Op_reserva_rapida request) s = snd (reserva_rapida request s)"
| "ejecutar (Op_cancelar hoy actor i) s =
     (case get_reserva (reservas s) i of
        None \<Rightarrow> s
      | Some r \<Rightarrow>
         (case get_cancha (canchas s) (cancha r) of
            None \<Rightarrow> s
          | Some c \<Rightarrow>
             (case cancelar hoy c actor r (reservas s) of
                Inl e \<Rightarrow> s
              | Inr (ok, r', rows') \<Rightarrow> s\<lparr>reservas := rows'\<rparr>)))"
| "ejecutar (Op_marcar_completadas sel) s = s\<lparr>reservas := marcar_completadas sel (reservas s)\<rparr>"
| "ejecutar (Op_marcar_no_show sel) s = s\<lparr>reservas := marcar_no_show sel (reservas s)\<rparr>"
| "ejecutar (Op_guardar_reserva r) s =
     (case get_cancha (canchas s) (cancha r) of
        None \<Rightarrow> s
      | Some c \<Rightarrow>
         (case Reserva_save c r (reservas s) of
            Inl e \<Rightarrow> s
          | Inr (r', rows') \<Rightarrow> s\<lparr>reservas := rows'\<rparr>))"
| "ejecutar (Op_guardar_cancha c) s =
     (if \<exists>x \<in> set (canchas s). id_cancha x = id_cancha c
      then s\<lparr>canchas := map (\<lambda>x. if id_cancha x = id_cancha c then c else x) (canchas s)\<rparr>
      else s\<lparr>canchas := canchas s @ [c]\<rparr>)"

text \<open>The reachable stores: from a store without reservations, by any operations.\<close>

inductive reachable :: "db \<Rightarrow> bool" where
  inicial: "reachable \<lparr>canchas = cs, reservas = []\<rparr>"
| paso: "reachable s \<Longrightarrow> reachable (ejecutar op s)"

text \<open>The confirmed reservations of a (court, date, start time) triple.\<close>

definition confirmadas_en :: "nat \<Rightarrow> int \<Rightarrow> time \<Rightarrow> reserva list \<Rightarrow> reserva list" where
  "confirmadas_en c f t rows =
     filter (\<lambda>r. estado r = Confirmada \<and> cancha r = c \<and> fecha_reserva r = f \<and> hora_inicio r = t) rows"


section \<open>Concurrent quick bookings\<close>

text \<open>
  A call of \<^verbatim>\<open>reserva_rapida\<close> reads the store at the availability check and writes it
  at \<^verbatim>\<open>Reserva.objects.create\<close>; calls of other requests may run in between. A call is
  pending, or has passed the check holding the court, the date and the time, or has
  answered.
\<close>

datatype fase = Pendiente | Verificada cancha int time | Terminada respuesta

definition rr_verificar :: "peticion \<Rightarrow> db \<Rightarrow> fase" where
  "rr_verificar request s =
     (if metodo request = POST then
        (case get_cancha_activa (canchas s) (cancha_id request) of
           None \<Rightarrow> Terminada Error_crear
         | Some c \<Rightarrow>
            (case fecha request of
               None \<Rightarrow> Terminada Error_crear
             | Some fecha_reserva' \<Rightarrow>
                (case strptime_hora (hora request) of
                   None \<Rightarrow> Terminada Error_crear
                 | Some hora_inicio' \<Rightarrow>
                    if esta_disponible c fecha_reserva' hora_inicio' None (reservas s)
                    then Verificada c fecha_reserva' hora_inicio'
                    else Terminada No_disponible)))
      else Terminada Metodo_no_permitido)"

definition rr_crear :: "peticion \<Rightarrow> cancha \<Rightarrow> int \<Rightarrow> time \<Rightarrow> db \<Rightarrow> respuesta \<times> db" where
  "rr_crear request c fecha_reserva' hora_inicio' s =
     (case Reserva_objects_create c (usuario request) fecha_reserva' hora_inicio'
             (kw_precio (Some (tarifa_hora c))) (reservas s) of
        Inl e \<Rightarrow> (Error_crear, s)
      | Inr (r, rows') \<Rightarrow> (Exito, s\<lparr>reservas := rows'\<rparr>))"

text \<open>One step of call \<open>i\<close>: its check if it is pending, its write if it has checked.\<close>

definition paso_hilo :: "peticion list \<Rightarrow> nat \<Rightarrow> db \<times> fase list \<Rightarrow> db \<times> fase list" where
  "paso_hilo reqs i cfg =
     (case cfg of (s, fs) \<Rightarrow>
        if i < length fs \<and> i < length reqs then
          (case fs ! i of
             Pendiente \<Rightarrow> (s, fs[i := rr_verificar (reqs ! i) s])
           | Verificada c f t \<Rightarrow>
               (case rr_crear (reqs ! i) c f t s of (resp, s') \<Rightarrow> (s', fs[i := Terminada resp]))
           | Terminada resp \<Rightarrow> (s, fs))
        else (s, fs))"


text \<open>How far a call has come: 0 pending, 1 checked, 2 answered.\<close>

fun avance :: "fase \<Rightarrow> nat" where
  "avance Pendiente = 0"
| "avance (Verificada c f t) = 1"
| "avance (Terminada resp) = 2"


section \<open>Example data\<close>

text \<open>The court of the specification's scenarios and a confirmed reservation on it.\<close>

definition cancha_central :: cancha where
  "cancha_central = \<lparr>id_cancha = 1, nombre = ''Central'', tarifa_hora = monto_de 8000, activa = True\<rparr>"

definition reserva_ejemplo :: reserva where
  "reserva_ejemplo =
     \<lparr>id_reserva = Some 1, cancha = 1, jugador = 7, fecha_reserva = 100,
      hora_inicio = mk_time 10 0, hora_fin = Some (mk_time 11 0), estado = Confirmada,
      notas = Some ''Traer pelotas'', precio_total = monto_de 8000\<rparr>"

definition db_inicial :: db where
  "db_inicial = \<lparr>canchas = [cancha_central], reservas = []\<rparr>"

text \<open>A quick-booking request of player 7 for court 1 on day \<open>f\<close> at \<open>h:m\<close>.\<close>

definition peticion_de :: "int \<Rightarrow> nat \<Rightarrow> nat \<Rightarrow> peticion" where
  "peticion_de f h m = \<lparr>metodo = POST, usuario = 7, cancha_id = Some 1, fecha = Some f, hora = Some (h, m)\<rparr>"

text \<open>The row that a quick booking on the example court stores under key \<open>i\<close>.\<close>

definition fila :: "nat \<Rightarrow> int \<Rightarrow> nat \<Rightarrow> nat \<Rightarrow> reserva" where
  "fila i f h m =
     \<lparr>id_reserva = Some i, cancha = 1, jugador = 7, fecha_reserva = f,
      hora_inicio = mk_time h m, hora_fin = Some (mk_time ((h + 1) mod 24) m), estado = Confirmada,
      notas = None, precio_total = monto_de 8000\<rparr>"

section \<open>Auxiliary facts about saving\<close>

lemma fold_max_ge: "(a::nat) \<le> fold max xs a"
proof (induction xs arbitrary: a)
  case Nil
  then show ?case by simp
next
  case (Cons x xs)
  have "a \<le> max x a" by simp
  also have "\<dots> \<le> fold max xs (max x a)" by (rule Cons.IH)
  finally show ?case by simp
qed

lemma fold_max_mem: "(x::nat) \<in> set xs \<Longrightarrow> x \<le> fold max xs a"
proof (induction xs arbitrary: a)
  case Nil then show ?case by simp
next
  case (Cons y ys)
  show ?case
  proof (cases "x = y")
    case True
    have "max y a \<le> fold max ys (max y a)" by (rule fold_max_ge)
    with True show ?thesis by simp
  next
    case False
    with Cons show ?thesis by simp
  qed
qed

lemma fresh_id_fresh: "x \<in> set rows \<Longrightarrow> id_reserva x \<noteq> Some (fresh_id rows)"
proof
  assume x: "x \<in> set rows" and eq: "id_reserva x = Some (fresh_id rows)"
  let ?k = "\<lambda>r. case id_reserva r of None \<Rightarrow> 0 | Some i \<Rightarrow> i"
  have "?k x \<in> set (map ?k rows)" using x by simp
  then have "?k x \<le> fold max (map ?k rows) 0" by (rule fold_max_mem)
  with eq show False by (simp add: fresh_id_def)
qed

lemma save_defaults_fields:
  "id_reserva (save_defaults c r) = id_reserva r"
  "estado (save_defaults c r) = estado r"
  "cancha (save_defaults c r) = cancha r"
  "fecha_reserva (save_defaults c r) = fecha_reserva r"
  "hora_inicio (save_defaults c r) = hora_inicio r"
  "notas (save_defaults c r) = notas r"
  "jugador (save_defaults c r) = jugador r"
  "hora_fin (save_defaults c r) \<noteq> None"
  "precio_total (save_defaults c r) =
     (if es_cero (precio_total r) then to_decimal (tarifa_hora c) else precio_total r)"
  by (simp_all add: save_defaults_def Let_def split: option.splits)

lemma save_defaults_hora_fin:
  "hora_fin (save_defaults c r) =
     (case hora_fin r of None \<Rightarrow> Some (mk_time ((hour (hora_inicio r) + 1) mod 24) (minute (hora_inicio r)))
      | Some e \<Rightarrow> Some e)"
  by (simp add: save_defaults_def Let_def split: option.splits)

lemma format_number_to_decimal: "format_number (to_decimal m) = Inr m"
  using centavos[of m] by (simp add: format_number_def to_decimal_def centavos_inverse)

lemma es_cero_to_decimal: "es_cero (to_decimal m) = (centavos m = 0)"
  by (simp add: to_decimal_def)

lemma get_db_prep_save_Inr:
  assumes "get_db_prep_save r = Inr x"
  shows "id_reserva x = id_reserva r" "estado x = estado r" "cancha x = cancha r"
    "fecha_reserva x = fecha_reserva r" "hora_inicio x = hora_inicio r" "notas x = notas r"
    "jugador x = jugador r" "hora_fin x = hora_fin r"
    "format_number (precio_total r) = Inr (precio_total x)"
  using assms by (auto simp: get_db_prep_save_def split: sum.splits)

lemma get_db_prep_save_from_db: "get_db_prep_save (from_db r) = Inr r"
  by (simp add: get_db_prep_save_def from_db_def format_number_to_decimal)

lemma Reserva_save_Inr:
  assumes "Reserva_save c r rows = Inr (r', rows')"
  shows "\<exists>x. get_db_prep_save (save_defaults c r) = Inr x \<and> model_save x rows = Inr (r', rows')"
  using assms by (auto simp: Reserva_save_def split: sum.splits)

text \<open>
  Saving an instance whose price is a column value \<open>m\<close> (a loaded instance, or a new one
  given a tariff): the row that is written.
\<close>

lemma save_columna:
  assumes "precio_total r = to_decimal m"
  shows "get_db_prep_save (save_defaults c r) =
     Inr \<lparr>id_reserva = id_reserva r, cancha = cancha r, jugador = jugador r,
          fecha_reserva = fecha_reserva r, hora_inicio = hora_inicio r,
          hora_fin = (case hora_fin r of
                        None \<Rightarrow> Some (mk_time ((hour (hora_inicio r) + 1) mod 24) (minute (hora_inicio r)))
                      | Some e \<Rightarrow> Some e),
          estado = estado r, notas = notas r,
          precio_total = (if centavos m = 0 then tarifa_hora c else m)\<rparr>"
  using assms
  by (simp add: get_db_prep_save_def save_defaults_fields save_defaults_hora_fin
      es_cero_to_decimal format_number_to_decimal)

lemma Reserva_save_from_db:
  "Reserva_save c (from_db r) rows =
     model_save
       (r\<lparr>precio_total := (if centavos (precio_total r) = 0 then tarifa_hora c else precio_total r),
          hora_fin := (case hora_fin r of
                         None \<Rightarrow> Some (mk_time ((hour (hora_inicio r) + 1) mod 24) (minute (hora_inicio r)))
                       | Some e \<Rightarrow> Some e)\<rparr>)
       rows"
proof -
  have p: "precio_total (from_db r) = to_decimal (precio_total r)" by (simp add: from_db_def)
  have f: "id_reserva (from_db r) = id_reserva r" "cancha (from_db r) = cancha r"
    "jugador (from_db r) = jugador r" "fecha_reserva (from_db r) = fecha_reserva r"
    "hora_inicio (from_db r) = hora_inicio r" "hora_fin (from_db r) = hora_fin r"
    "estado (from_db r) = estado r" "notas (from_db r) = notas r"
    by (simp_all add: from_db_def)
  have "get_db_prep_save (save_defaults c (from_db r)) =
     Inr (r\<lparr>precio_total := (if centavos (precio_total r) = 0 then tarifa_hora c else precio_total r),
          hora_fin := (case hora_fin r of
                         None \<Rightarrow> Some (mk_time ((hour (hora_inicio r) + 1) mod 24) (minute (hora_inicio r)))
                       | Some e \<Rightarrow> Some e)\<rparr>)"
    unfolding save_columna[OF p] f by (cases r) simp
  then show ?thesis by (simp add: Reserva_save_def)
qed

lemma model_save_Inr:
  "model_save r rows = Inr (r', rows') \<Longrightarrow>
     r' \<in> set rows' \<and> (id_reserva r \<noteq> None \<longrightarrow> r' = r) \<and>
     r' = r\<lparr>id_reserva := id_reserva r'\<rparr> \<and> id_reserva r' \<noteq> None"
  by (auto simp: model_save_def db_insert_def db_update_def split: option.splits if_splits)

lemma model_save_no_confirmada:
  "estado r \<noteq> Confirmada \<Longrightarrow> hora_fin r \<noteq> None \<Longrightarrow> \<exists>r' rows'. model_save r rows = Inr (r', rows')"
  by (auto simp: model_save_def db_insert_def db_update_def viola_unique_def fresh_id_fresh
      split: option.splits)





section \<open>The table invariant is preserved by every write\<close>





















section \<open>Availability\<close>

text \<open>
  C3. For a court, a date and a requested interval from \<open>ini\<close> to \<open>fin\<close>,
  \<^verbatim>\<open>esta_disponible\<close> answers False when the court is inactive; for an active court it
  answers False exactly when some confirmed reservation of that court and date starts
  before \<open>fin\<close> and ends after \<open>ini\<close> (half-open overlap), and True otherwise. The
  function reads the table and returns only the answer: it writes nothing.
\<close>

theorem esta_disponible_solapamiento:
  "esta_disponible c f ini (Some fin) rows =
     (activa c \<and>
      \<not> (\<exists>r \<in> set rows. cancha r = id_cancha c \<and> fecha_reserva r = f \<and> estado r = Confirmada \<and>
            time_lt (hora_inicio r) fin \<and> (\<exists>e. hora_fin r = Some e \<and> time_lt ini e)))"
  by (auto simp: esta_disponible_def confirmadas_del_dia_def hora_fin_gt_def filter_empty_conv
      split: option.splits)

text \<open>
  C4. For an inactive court \<^verbatim>\<open>get_horarios_disponibles\<close> returns the empty list. For an
  active court without a confirmed reservation on the date it returns exactly the 14
  whole hours 08:00 to 21:00, in ascending order.
\<close>

theorem horarios_sin_reservas:
  "(\<not> activa c \<longrightarrow> get_horarios_disponibles c f rows = []) \<and>
   (activa c \<and> (\<forall>r \<in> set rows. \<not> (cancha r = id_cancha c \<and> fecha_reserva r = f \<and> estado r = Confirmada)) \<longrightarrow>
      get_horarios_disponibles c f rows =
        [mk_time 8 0, mk_time 9 0, mk_time 10 0, mk_time 11 0, mk_time 12 0, mk_time 13 0,
         mk_time 14 0, mk_time 15 0, mk_time 16 0, mk_time 17 0, mk_time 18 0, mk_time 19 0,
         mk_time 20 0, mk_time 21 0]
      \<and> length (get_horarios_disponibles c f rows) = 14)"
proof (intro conjI impI)
  assume "\<not> activa c"
  then show "get_horarios_disponibles c f rows = []"
    by (simp add: get_horarios_disponibles_def)
next
  assume a: "activa c \<and> (\<forall>r \<in> set rows. \<not> (cancha r = id_cancha c \<and> fecha_reserva r = f \<and> estado r = Confirmada))"
  then have e: "confirmadas_del_dia c f rows = []"
    by (simp add: confirmadas_del_dia_def filter_empty_conv)
  from a e show l: "get_horarios_disponibles c f rows =
        [mk_time 8 0, mk_time 9 0, mk_time 10 0, mk_time 11 0, mk_time 12 0, mk_time 13 0,
         mk_time 14 0, mk_time 15 0, mk_time 16 0, mk_time 17 0, mk_time 18 0, mk_time 19 0,
         mk_time 20 0, mk_time 21 0]"
    by (simp add: get_horarios_disponibles_def get_reservas_del_dia_def upt_rec)
  show "length (get_horarios_disponibles c f rows) = 14"
    unfolding l by simp
qed

theorem horarios_sin_reservas_witness:
  "activa cancha_central \<and>
   get_horarios_disponibles cancha_central 100 [reserva_ejemplo\<lparr>estado := Cancelada\<rparr>] =
        [mk_time 8 0, mk_time 9 0, mk_time 10 0, mk_time 11 0, mk_time 12 0, mk_time 13 0,
         mk_time 14 0, mk_time 15 0, mk_time 16 0, mk_time 17 0, mk_time 18 0, mk_time 19 0,
         mk_time 20 0, mk_time 21 0] \<and>
   \<not> activa (cancha_central\<lparr>activa := False\<rparr>) \<and>
   get_horarios_disponibles (cancha_central\<lparr>activa := False\<rparr>) 100 [reserva_ejemplo] = []"
  using horarios_sin_reservas[of cancha_central 100 "[reserva_ejemplo\<lparr>estado := Cancelada\<rparr>]"]
    horarios_sin_reservas[of "cancha_central\<lparr>activa := False\<rparr>" 100 "[reserva_ejemplo]"]
  by (simp add: cancha_central_def reserva_ejemplo_def)

section \<open>Auxiliary facts about times, slots and creation\<close>

lemma time_lt_mk_time: "time_lt (mk_time h 0) (mk_time k 0) = (h < k)"
  by (simp add: time_lt_def time_tuple_def mk_time_def)

lemma mk_time_eq: "(mk_time h m = mk_time k n) = (h = k \<and> m = n)"
  by (auto simp: mk_time_def)

lemma solapa_hora_entera:
  fixes h k :: nat
  assumes "k < 22"
  shows "(h < k + 1 \<and> k < (h + 1) mod 24) = (h = k)"
proof (cases "h < 23")
  case True
  then have "(h + 1) mod 24 = h + 1" by simp
  then show ?thesis by auto
next
  case False
  with assms show ?thesis by auto
qed

lemma set_horarios:
  assumes "activa c"
  shows "set (get_horarios_disponibles c f rows) =
     {t \<in> (\<lambda>hora. mk_time hora 0) ` {8..<22}.
         t \<notin> hora_inicio ` set (confirmadas_del_dia c f rows)}"
proof -
  have "get_horarios_disponibles c f rows =
      filter (\<lambda>horario. horario \<notin> set (map hora_inicio (get_reservas_del_dia c f rows)))
        (map (\<lambda>hora. mk_time hora 0) [8..<22])"
    using assms unfolding get_horarios_disponibles_def Let_def by (simp only: not_True_eq_False if_False)
  then show ?thesis
    by (simp only: get_reservas_del_dia_def set_filter set_map set_sort set_upt)
qed

lemma esta_disponible_conv:
  "esta_disponible c f ini fin_opt rows =
     (activa c \<and> (\<forall>r \<in> set (confirmadas_del_dia c f rows).
        \<not> (time_lt (hora_inicio r) (case fin_opt of None \<Rightarrow> hora_fin_asumida ini | Some e \<Rightarrow> e)
           \<and> hora_fin_gt r ini)))"
  by (auto simp: esta_disponible_def Let_def filter_empty_conv)

lemma confirmadas_en_empty:
  "(confirmadas_en c f t rows = []) =
     (\<forall>x \<in> set rows. \<not> (estado x = Confirmada \<and> cancha x = c \<and> fecha_reserva x = f \<and> hora_inicio x = t))"
  by (simp add: confirmadas_en_def filter_empty_conv)

lemma viola_unique_fresh:
  assumes "estado r = Confirmada" "id_reserva r = Some (fresh_id rows)"
  shows "viola_unique r rows =
           (confirmadas_en (cancha r) (fecha_reserva r) (hora_inicio r) rows \<noteq> [])"
proof -
  have "id_reserva x \<noteq> id_reserva r" if "x \<in> set rows" for x
    using fresh_id_fresh[OF that] assms(2) by simp
  then show ?thesis
    unfolding viola_unique_def confirmadas_en_empty using assms(1) by blast
qed

lemma create_conv:
  assumes "get_db_prep_save (save_defaults c (Reserva_init c j f t kw)) = Inr x"
  shows "Reserva_objects_create c j f t kw rows =
     (if estado x = Confirmada \<and> confirmadas_en (id_cancha c) f t rows \<noteq> []
      then Inl IntegrityError
      else Inr (x\<lparr>id_reserva := Some (fresh_id rows)\<rparr>,
                rows @ [x\<lparr>id_reserva := Some (fresh_id rows)\<rparr>]))"
proof -
  define r where "r = x\<lparr>id_reserva := Some (fresh_id rows)\<rparr>"
  from get_db_prep_save_Inr[OF assms]
  have fx: "id_reserva x = None" "cancha x = id_cancha c" "fecha_reserva x = f"
    "hora_inicio x = t" "hora_fin x \<noteq> None"
    by (simp_all add: save_defaults_fields Reserva_init_def)
  have fr: "id_reserva r = Some (fresh_id rows)" "estado r = estado x" "cancha r = id_cancha c"
    "fecha_reserva r = f" "hora_inicio r = t" "hora_fin r \<noteq> None"
    by (simp_all add: r_def fx)
  have nid: "\<not> (\<exists>y \<in> set rows. id_reserva y = id_reserva r)"
    using fresh_id_fresh fr(1) by auto
  have v: "viola_unique r rows =
      (estado x = Confirmada \<and> confirmadas_en (id_cancha c) f t rows \<noteq> [])"
  proof (cases "estado x = Confirmada")
    case True
    then have "estado r = Confirmada" by (simp add: fr)
    from viola_unique_fresh[OF this fr(1)] True show ?thesis by (simp add: fr)
  next
    case False
    then show ?thesis by (simp add: viola_unique_def fr)
  qed
  have "db_insert r rows =
      (if estado x = Confirmada \<and> confirmadas_en (id_cancha c) f t rows \<noteq> []
       then Inl IntegrityError else Inr (r, rows @ [r]))"
    using v nid fr by (auto simp: db_insert_def)
  then show ?thesis
    by (simp add: Reserva_objects_create_def Reserva_save_def assms model_save_def fx
        r_def[symmetric])
qed

lemma prep_kw_precio:
  "get_db_prep_save (save_defaults c (Reserva_init c j f t (kw_precio p))) =
     Inr \<lparr>id_reserva = None, cancha = id_cancha c, jugador = j, fecha_reserva = f,
          hora_inicio = t, hora_fin = Some (mk_time ((hour t + 1) mod 24) (minute t)),
          estado = Confirmada, notas = None,
          precio_total = (case p of None \<Rightarrow> tarifa_hora c
                          | Some m \<Rightarrow> if centavos m = 0 then tarifa_hora c else m)\<rparr>"
proof (cases p)
  case None
  then show ?thesis
    by (simp add: get_db_prep_save_def save_defaults_fields save_defaults_hora_fin
        Reserva_init_def kw_precio_def sin_kwargs_def format_number_to_decimal)
next
  case (Some m)
  have "precio_total (Reserva_init c j f t (kw_precio (Some m))) = to_decimal m"
    by (simp add: Reserva_init_def kw_precio_def sin_kwargs_def)
  from save_columna[OF this, of c] Some show ?thesis
    by (simp add: Reserva_init_def kw_precio_def sin_kwargs_def)
qed

lemma create_libre:
  assumes "confirmadas_en (id_cancha c) f t rows = []"
  shows "\<exists>r. Reserva_objects_create c j f t (kw_precio p) rows = Inr (r, rows @ [r]) \<and>
             id_reserva r = Some (fresh_id rows) \<and> estado r = Confirmada \<and>
             cancha r = id_cancha c \<and> jugador r = j \<and> fecha_reserva r = f \<and> hora_inicio r = t \<and>
             hora_fin r = Some (mk_time ((hour t + 1) mod 24) (minute t))"
  unfolding create_conv[OF prep_kw_precio] using assms by simp


lemmas eval_defs = Reserva_objects_create_def Reserva_init_def sin_kwargs_def kw_precio_def
  Reserva_save_def save_defaults_def get_db_prep_save_def format_number_def round_half_even_def
  to_decimal_def from_db_def monto_de_inverse model_save_def
  db_insert_def db_update_def viola_unique_def fresh_id_def mk_time_def cancha_central_def
  reserva_ejemplo_def Let_def

lemma rr_10_30:
  "reserva_rapida (peticion_de 100 10 30) db_inicial =
     (Exito, \<lparr>canchas = [cancha_central], reservas = [fila 1 100 10 30]\<rparr>)"
  by (simp add: reserva_rapida_def peticion_de_def db_inicial_def get_cancha_activa_def
      strptime_hora_def esta_disponible_def confirmadas_del_dia_def hora_fin_asumida_def
      fila_def eval_defs)

lemma disp_10: "\<not> esta_disponible cancha_central 100 (mk_time 10 0) None [fila 1 100 10 30]"
  by (simp add: esta_disponible_def confirmadas_del_dia_def hora_fin_asumida_def hora_fin_gt_def
      time_lt_def time_tuple_def fila_def mk_time_def cancha_central_def)

lemma hor_10: "mk_time 10 0 \<in> set (get_horarios_disponibles cancha_central 100 [fila 1 100 10 30])"
proof -
  have a: "activa cancha_central" by (simp add: cancha_central_def)
  have "(10::nat) \<in> {8..<22}" by simp
  then have "mk_time 10 0 \<in> (\<lambda>hora. mk_time hora 0) ` {8..<22}" by (rule imageI)
  moreover have "mk_time 10 0 \<notin> hora_inicio ` set (confirmadas_del_dia cancha_central 100 [fila 1 100 10 30])"
    by (simp add: confirmadas_del_dia_def fila_def mk_time_def)
  ultimately show ?thesis unfolding set_horarios[OF a] by blast
qed

section \<open>Cancellation\<close>

text \<open>
  The claim C6 as written says that \<^verbatim>\<open>cancelar\<close> appends the attribution note. The
  code assigns \<^verbatim>\<open>self.notas\<close>: a reservation with the note \<open>Traer pelotas\<close>, cancelled by
  Ana Diaz, keeps only the attribution.
\<close>

theorem cancelar_notas_contraejemplo:
  "notas reserva_ejemplo = Some ''Traer pelotas'' \<and>
   cancelar 50 cancha_central (Some ''Ana Diaz'') reserva_ejemplo [reserva_ejemplo] =
     Inr (True,
          reserva_ejemplo\<lparr>estado := Cancelada, notas := Some ''Cancelada por: Ana Diaz''\<rparr>,
          [reserva_ejemplo\<lparr>estado := Cancelada, notas := Some ''Cancelada por: Ana Diaz''\<rparr>])"
  by (simp add: cancelar_def puede_cancelar_def eval_defs)

text \<open>
  C6, amended. \<^verbatim>\<open>puede_cancelar\<close> holds exactly for a confirmed reservation whose date
  is today or later. When it does not hold, \<^verbatim>\<open>cancelar\<close> returns False and changes
  neither the instance nor the table. When it holds, \<^verbatim>\<open>cancelar\<close> returns True, the
  status is cancelled, the notes are replaced by the attribution when an actor is given
  (and kept when none is), and the saved row is in the table; a second call, on any day
  and by any actor, returns False and changes nothing.
\<close>

theorem cancelar_spec:
  "puede_cancelar hoy r = (estado r = Confirmada \<and> hoy \<le> fecha_reserva r) \<and>
   (\<not> puede_cancelar hoy r \<longrightarrow> cancelar hoy c actor r rows = Inr (False, r, rows)) \<and>
   (puede_cancelar hoy r \<longrightarrow>
      (\<exists>r' rows'. cancelar hoy c actor r rows = Inr (True, r', rows') \<and>
         estado r' = Cancelada \<and>
         notas r' = (case actor of None \<Rightarrow> notas r | Some n \<Rightarrow> Some (''Cancelada por: '' @ n)) \<and>
         r' \<in> set rows' \<and>
         cancelar hoy2 c2 actor2 r' rows' = Inr (False, r', rows')))"
proof (intro conjI impI)
  show "puede_cancelar hoy r = (estado r = Confirmada \<and> hoy \<le> fecha_reserva r)"
    by (simp add: puede_cancelar_def)
  show "cancelar hoy c actor r rows = Inr (False, r, rows)" if "\<not> puede_cancelar hoy r"
    using that by (simp add: cancelar_def)
  assume pc: "puede_cancelar hoy r"
  define r2 where "r2 = (case actor of None \<Rightarrow> r\<lparr>estado := Cancelada\<rparr>
       | Some n \<Rightarrow> r\<lparr>estado := Cancelada, notas := Some (''Cancelada por: '' @ n)\<rparr>)"
  have e2: "estado r2 = Cancelada" by (simp add: r2_def split: option.splits)
  have n2: "notas r2 = (case actor of None \<Rightarrow> notas r | Some n \<Rightarrow> Some (''Cancelada por: '' @ n))"
    by (simp add: r2_def split: option.splits)
  define r3 where "r3 =
      r2\<lparr>precio_total := (if centavos (precio_total r2) = 0 then tarifa_hora c else precio_total r2),
         hora_fin := (case hora_fin r2 of
                        None \<Rightarrow> Some (mk_time ((hour (hora_inicio r2) + 1) mod 24) (minute (hora_inicio r2)))
                      | Some e \<Rightarrow> Some e)\<rparr>"
  have sv: "Reserva_save c (from_db r2) rows = model_save r3 rows"
    unfolding r3_def by (rule Reserva_save_from_db)
  have e3: "estado r3 = Cancelada" "notas r3 = notas r2"
    by (simp_all add: r3_def e2)
  have h3: "hora_fin r3 \<noteq> None" by (simp add: r3_def split: option.splits)
  from e3(1) have "estado r3 \<noteq> Confirmada" by simp
  from model_save_no_confirmada[OF this h3]
  obtain r' rows' where ms: "model_save r3 rows = Inr (r', rows')" by blast
  from model_save_Inr[OF ms]
  have mem: "r' \<in> set rows'" and eq: "r' = r3\<lparr>id_reserva := id_reserva r'\<rparr>"
    by simp_all
  have e': "estado r' = Cancelada" by (subst eq) (simp add: e3)
  have n': "notas r' = notas r2" by (subst eq) (simp add: e3)
  have "cancelar hoy c actor r rows =
      (case Reserva_save c (from_db r2) rows of
         Inl e \<Rightarrow> Inl e | Inr (r3, rows') \<Rightarrow> Inr (True, r3, rows'))"
    using pc by (simp add: cancelar_def r2_def Let_def split: option.splits)
  then have c1: "cancelar hoy c actor r rows = Inr (True, r', rows')"
    by (simp add: sv ms)
  have c2: "cancelar hoy2 c2 actor2 r' rows' = Inr (False, r', rows')"
    by (simp add: cancelar_def puede_cancelar_def e')
  show "\<exists>r' rows'. cancelar hoy c actor r rows = Inr (True, r', rows') \<and>
         estado r' = Cancelada \<and>
         notas r' = (case actor of None \<Rightarrow> notas r | Some n \<Rightarrow> Some (''Cancelada por: '' @ n)) \<and>
         r' \<in> set rows' \<and>
         cancelar hoy2 c2 actor2 r' rows' = Inr (False, r', rows')"
    using c1 e' n' n2 mem c2 by auto
qed

theorem cancelar_spec_witness:
  "puede_cancelar 50 reserva_ejemplo \<and>
   (\<exists>r' rows'. cancelar 50 cancha_central (Some ''Ana Diaz'') reserva_ejemplo [reserva_ejemplo]
        = Inr (True, r', rows') \<and>
      estado r' = Cancelada \<and> notas r' = Some ''Cancelada por: Ana Diaz'' \<and> r' \<in> set rows' \<and>
      cancelar 50 cancha_central (Some ''Ana Diaz'') r' rows' = Inr (False, r', rows')) \<and>
   \<not> puede_cancelar 101 reserva_ejemplo \<and>
   cancelar 101 cancha_central None reserva_ejemplo [reserva_ejemplo]
     = Inr (False, reserva_ejemplo, [reserva_ejemplo])"
proof -
  have a: "puede_cancelar 50 reserva_ejemplo"
    by (simp add: puede_cancelar_def reserva_ejemplo_def)
  have b: "\<not> puede_cancelar 101 reserva_ejemplo"
    by (simp add: puede_cancelar_def reserva_ejemplo_def)
  from a b
    cancelar_spec[of 50 reserva_ejemplo cancha_central "Some ''Ana Diaz''" "[reserva_ejemplo]"
      50 cancha_central "Some ''Ana Diaz''"]
    cancelar_spec[of 101 reserva_ejemplo cancha_central None "[reserva_ejemplo]"]
  show ?thesis by simp
qed

section \<open>Price and status at creation\<close>

lemma round_half_even_cerca:
  assumes "0 < d"
  shows "2 * \<bar>n - round_half_even n d * d\<bar> \<le> d"
proof -
  have n: "n = (n div d) * d + n mod d" by simp
  have r: "0 \<le> n mod d" "n mod d < d" using assms by simp_all
  have a: "n - (n div d) * d = n mod d" using n by (simp add: algebra_simps)
  have b: "n - (n div d + 1) * d = n mod d - d" using n by (simp add: algebra_simps)
  show ?thesis
    unfolding round_half_even_def Let_def using r by (auto simp: a b)
qed

lemma create_Inr:
  assumes "Reserva_objects_create c j f t kw rows = Inr (r, rows')"
  shows "r \<in> set rows'"
    and "estado r = (case kw_estado kw of None \<Rightarrow> Confirmada | Some e \<Rightarrow> e)"
    and "format_number (precio_total (save_defaults c (Reserva_init c j f t kw)))
           = Inr (precio_total r)"
proof -
  from Reserva_save_Inr[OF assms[unfolded Reserva_objects_create_def]] obtain x where
    x: "get_db_prep_save (save_defaults c (Reserva_init c j f t kw)) = Inr x"
    and ms: "model_save x rows = Inr (r, rows')" by blast
  from model_save_Inr[OF ms] have mem: "r \<in> set rows'"
    and eq: "r = x\<lparr>id_reserva := id_reserva r\<rparr>" by simp_all
  from eq have fe: "estado r = estado x" and fp: "precio_total r = precio_total x"
    by (metis reserva_de.select_convs reserva_de.surjective reserva_de.update_convs(1))+
  show "r \<in> set rows'" by (rule mem)
  show "estado r = (case kw_estado kw of None \<Rightarrow> Confirmada | Some e \<Rightarrow> e)"
    using get_db_prep_save_Inr(2)[OF x] fe by (simp add: save_defaults_fields Reserva_init_def)
  show "format_number (precio_total (save_defaults c (Reserva_init c j f t kw)))
           = Inr (precio_total r)"
    using get_db_prep_save_Inr(9)[OF x] fp by simp
qed

lemma format_number_Inr: "format_number d = Inr m \<Longrightarrow> centavos m = quantize d"
  by (auto simp: format_number_def Let_def monto_de_inverse split: if_splits)

text \<open>
  The claim C8 as written says that a price supplied at creation is kept and that the
  created reservation is confirmed. On the court Central (tariff 80.00): a supplied price
  of 0 is replaced by the tariff, because \<^verbatim>\<open>not self.precio_total\<close> holds for it; a
  supplied price of 0.004 is stored as 0.00; and the call of \<^verbatim>\<open>init_data.py\<close> that
  gives \<^verbatim>\<open>estado='cancelada'\<close> creates a cancelled reservation.
\<close>

theorem create_precio_cero_contraejemplo:
  "Reserva_objects_create cancha_central 7 100 (mk_time 10 0)
       (sin_kwargs\<lparr>kw_precio_total := Some (Decimal 0 0)\<rparr>) [] =
     Inr (\<lparr>id_reserva = Some 1, cancha = 1, jugador = 7, fecha_reserva = 100,
            hora_inicio = mk_time 10 0, hora_fin = Some (mk_time 11 0), estado = Confirmada,
            notas = None, precio_total = monto_de 8000\<rparr>,
          [\<lparr>id_reserva = Some 1, cancha = 1, jugador = 7, fecha_reserva = 100,
            hora_inicio = mk_time 10 0, hora_fin = Some (mk_time 11 0), estado = Confirmada,
            notas = None, precio_total = monto_de 8000\<rparr>]) \<and>
   Reserva_objects_create cancha_central 7 100 (mk_time 10 0)
       (sin_kwargs\<lparr>kw_precio_total := Some (Decimal 4 (- 3))\<rparr>) [] =
     Inr (\<lparr>id_reserva = Some 1, cancha = 1, jugador = 7, fecha_reserva = 100,
            hora_inicio = mk_time 10 0, hora_fin = Some (mk_time 11 0), estado = Confirmada,
            notas = None, precio_total = monto_de 0\<rparr>,
          [\<lparr>id_reserva = Some 1, cancha = 1, jugador = 7, fecha_reserva = 100,
            hora_inicio = mk_time 10 0, hora_fin = Some (mk_time 11 0), estado = Confirmada,
            notas = None, precio_total = monto_de 0\<rparr>]) \<and>
   Reserva_objects_create cancha_central 7 100 (mk_time 15 0)
       (sin_kwargs\<lparr>kw_estado := Some Cancelada, kw_notas := Some ''Cancelada por lluvia''\<rparr>) [] =
     Inr (\<lparr>id_reserva = Some 1, cancha = 1, jugador = 7, fecha_reserva = 100,
            hora_inicio = mk_time 15 0, hora_fin = Some (mk_time 16 0), estado = Cancelada,
            notas = Some ''Cancelada por lluvia'', precio_total = monto_de 8000\<rparr>,
          [\<lparr>id_reserva = Some 1, cancha = 1, jugador = 7, fecha_reserva = 100,
            hora_inicio = mk_time 15 0, hora_fin = Some (mk_time 16 0), estado = Cancelada,
            notas = Some ''Cancelada por lluvia'', precio_total = monto_de 8000\<rparr>])"
  by (simp add: eval_defs)

text \<open>
  C8, amended. A reservation created by \<^verbatim>\<open>Reserva.objects.create\<close> is stored. Its status
  is confirmed when the call gives no status, and the status given otherwise. Its price
  is the court's tariff when the call gives no price or a price equal to zero. A price
  that is not zero is stored rounded to hundredths: unchanged when it has at most two
  decimal places, and otherwise the nearest number of hundredths, a tie going to the even
  one. When the rounded price has more than eight digits nothing is created: the call
  raises \<^verbatim>\<open>decimal.InvalidOperation\<close>.
\<close>

theorem create_defaults:
  "(Reserva_objects_create c j f t kw rows = Inr (r, rows') \<longrightarrow>
      r \<in> set rows' \<and>
      estado r = (case kw_estado kw of None \<Rightarrow> Confirmada | Some e \<Rightarrow> e) \<and>
      (case kw_precio_total kw of
         None \<Rightarrow> precio_total r = tarifa_hora c
       | Some (Decimal co e) \<Rightarrow>
           if co = 0 then precio_total r = tarifa_hora c
           else if - 2 \<le> e then centavos (precio_total r) = co * 10 ^ nat (e + 2)
           else centavos (precio_total r) = round_half_even co (10 ^ nat (- 2 - e)) \<and>
                2 * \<bar>co - centavos (precio_total r) * 10 ^ nat (- 2 - e)\<bar> \<le> 10 ^ nat (- 2 - e))) \<and>
   (\<forall>p. kw_precio_total kw = Some p \<and> \<not> es_cero p \<and>
        \<not> (- 100000000 < quantize p \<and> quantize p < 100000000) \<longrightarrow>
        Reserva_objects_create c j f t kw rows = Inl InvalidOperation)"
proof (intro conjI impI allI)
  assume cr: "Reserva_objects_create c j f t kw rows = Inr (r, rows')"
  show "r \<in> set rows'" by (rule create_Inr(1)[OF cr])
  show "estado r = (case kw_estado kw of None \<Rightarrow> Confirmada | Some e \<Rightarrow> e)"
    by (rule create_Inr(2)[OF cr])
  note fn = create_Inr(3)[OF cr]
  show "case kw_precio_total kw of
         None \<Rightarrow> precio_total r = tarifa_hora c
       | Some (Decimal co e) \<Rightarrow>
           if co = 0 then precio_total r = tarifa_hora c
           else if - 2 \<le> e then centavos (precio_total r) = co * 10 ^ nat (e + 2)
           else centavos (precio_total r) = round_half_even co (10 ^ nat (- 2 - e)) \<and>
                2 * \<bar>co - centavos (precio_total r) * 10 ^ nat (- 2 - e)\<bar> \<le> 10 ^ nat (- 2 - e)"
  proof (cases "kw_precio_total kw")
    case None
    with fn show ?thesis
      by (simp add: save_defaults_fields Reserva_init_def format_number_to_decimal)
  next
    case (Some p)
    obtain co e where p: "p = Decimal co e" by (cases p)
    show ?thesis
    proof (cases "co = 0")
      case True
      with fn Some p show ?thesis
        by (simp add: save_defaults_fields Reserva_init_def format_number_to_decimal)
    next
      case False
      with fn Some p have "format_number (Decimal co e) = Inr (precio_total r)"
        by (simp add: save_defaults_fields Reserva_init_def)
      then have q: "centavos (precio_total r) = quantize (Decimal co e)"
        by (rule format_number_Inr)
      have "(0::int) < 10 ^ nat (- 2 - e)" by simp
      from round_half_even_cerca[OF this, of co] q False Some p show ?thesis by simp
    qed
  qed
next
  fix p
  assume h: "kw_precio_total kw = Some p \<and> \<not> es_cero p \<and>
        \<not> (- 100000000 < quantize p \<and> quantize p < 100000000)"
  then have "format_number (precio_total (save_defaults c (Reserva_init c j f t kw)))
      = Inl InvalidOperation"
    by (auto simp: save_defaults_fields Reserva_init_def format_number_def Let_def)
  then show "Reserva_objects_create c j f t kw rows = Inl InvalidOperation"
    by (simp add: Reserva_objects_create_def Reserva_save_def get_db_prep_save_def)
qed

theorem create_defaults_witness:
  "Reserva_objects_create cancha_central 7 100 (mk_time 10 0) sin_kwargs [] =
     Inr (\<lparr>id_reserva = Some 1, cancha = 1, jugador = 7, fecha_reserva = 100,
            hora_inicio = mk_time 10 0, hora_fin = Some (mk_time 11 0), estado = Confirmada,
            notas = None, precio_total = monto_de 8000\<rparr>,
          [\<lparr>id_reserva = Some 1, cancha = 1, jugador = 7, fecha_reserva = 100,
            hora_inicio = mk_time 10 0, hora_fin = Some (mk_time 11 0), estado = Confirmada,
            notas = None, precio_total = monto_de 8000\<rparr>]) \<and>
   tarifa_hora cancha_central = monto_de 8000 \<and>
   Reserva_objects_create cancha_central 7 100 (mk_time 10 0)
       (sin_kwargs\<lparr>kw_precio_total := Some (Decimal 95 0)\<rparr>) [] =
     Inr (\<lparr>id_reserva = Some 1, cancha = 1, jugador = 7, fecha_reserva = 100,
            hora_inicio = mk_time 10 0, hora_fin = Some (mk_time 11 0), estado = Confirmada,
            notas = None, precio_total = monto_de 9500\<rparr>,
          [\<lparr>id_reserva = Some 1, cancha = 1, jugador = 7, fecha_reserva = 100,
            hora_inicio = mk_time 10 0, hora_fin = Some (mk_time 11 0), estado = Confirmada,
            notas = None, precio_total = monto_de 9500\<rparr>]) \<and>
   centavos (monto_de 9500) = 95 * 10 ^ nat (0 + 2) \<and>
   Reserva_objects_create cancha_central 7 100 (mk_time 10 0)
       (sin_kwargs\<lparr>kw_precio_total := Some (Decimal 12345 (- 3))\<rparr>) [] =
     Inr (\<lparr>id_reserva = Some 1, cancha = 1, jugador = 7, fecha_reserva = 100,
            hora_inicio = mk_time 10 0, hora_fin = Some (mk_time 11 0), estado = Confirmada,
            notas = None, precio_total = monto_de 1234\<rparr>,
          [\<lparr>id_reserva = Some 1, cancha = 1, jugador = 7, fecha_reserva = 100,
            hora_inicio = mk_time 10 0, hora_fin = Some (mk_time 11 0), estado = Confirmada,
            notas = None, precio_total = monto_de 1234\<rparr>]) \<and>
   centavos (monto_de 1234) = round_half_even 12345 (10 ^ nat (- 2 - (- 3))) \<and>
   \<not> quantize (Decimal 1000000 0) < 100000000 \<and>
   Reserva_objects_create cancha_central 7 100 (mk_time 10 0)
       (sin_kwargs\<lparr>kw_precio_total := Some (Decimal 1000000 0)\<rparr>) [] = Inl InvalidOperation"
proof -
  let ?r = "\<lambda>p. \<lparr>id_reserva = Some 1, cancha = 1, jugador = 7, fecha_reserva = 100,
            hora_inicio = mk_time 10 0, hora_fin = Some (mk_time 11 0), estado = Confirmada,
            notas = None, precio_total = monto_de p\<rparr>"
  have a: "Reserva_objects_create cancha_central 7 100 (mk_time 10 0) sin_kwargs []
      = Inr (?r 8000, [?r 8000])"
    by (simp add: eval_defs)
  have b: "Reserva_objects_create cancha_central 7 100 (mk_time 10 0)
       (sin_kwargs\<lparr>kw_precio_total := Some (Decimal 95 0)\<rparr>) [] = Inr (?r 9500, [?r 9500])"
    by (simp add: eval_defs)
  have d: "Reserva_objects_create cancha_central 7 100 (mk_time 10 0)
       (sin_kwargs\<lparr>kw_precio_total := Some (Decimal 12345 (- 3))\<rparr>) [] = Inr (?r 1234, [?r 1234])"
    by (simp add: eval_defs)
  have q: "\<not> quantize (Decimal 1000000 0) < 100000000" by simp
  from create_defaults[of cancha_central 7 100 "mk_time 10 0" sin_kwargs "[]" "?r 8000" "[?r 8000]"] a
  have a': "tarifa_hora cancha_central = monto_de 8000"
    by (simp add: sin_kwargs_def)
  from create_defaults[of cancha_central 7 100 "mk_time 10 0"
      "sin_kwargs\<lparr>kw_precio_total := Some (Decimal 95 0)\<rparr>" "[]" "?r 9500" "[?r 9500]"] b
  have b': "centavos (monto_de 9500) = 95 * 10 ^ nat (0 + 2)"
    by (simp add: sin_kwargs_def)
  from create_defaults[of cancha_central 7 100 "mk_time 10 0"
      "sin_kwargs\<lparr>kw_precio_total := Some (Decimal 12345 (- 3))\<rparr>" "[]" "?r 1234" "[?r 1234]"] d
  have d': "centavos (monto_de 1234) = round_half_even 12345 (10 ^ nat (- 2 - (- 3)))"
    by (simp add: sin_kwargs_def)
  from create_defaults[of cancha_central 7 100 "mk_time 10 0"
      "sin_kwargs\<lparr>kw_precio_total := Some (Decimal 1000000 0)\<rparr>" "[]"] q
  have e: "Reserva_objects_create cancha_central 7 100 (mk_time 10 0)
       (sin_kwargs\<lparr>kw_precio_total := Some (Decimal 1000000 0)\<rparr>) [] = Inl InvalidOperation"
    by (simp add: sin_kwargs_def)
  from a a' b b' d d' q e show ?thesis by blast
qed

section \<open>The slot list against the availability check\<close>

text \<open>
  The claim C9 as written speaks of every confirmed reservation that can exist in the
  store. A quick booking at 10:30 is stored (10:30 to 11:30); then 10:00 is in the slot
  list of the day, although the court is not available from 10:00 to 11:00.
\<close>

theorem horarios_10_30_contraejemplo:
  "reachable (snd (reserva_rapida (peticion_de 100 10 30) db_inicial)) \<and>
   reservas (snd (reserva_rapida (peticion_de 100 10 30) db_inicial)) = [fila 1 100 10 30] \<and>
   hora_inicio (fila 1 100 10 30) = mk_time 10 30 \<and>
   hora_fin (fila 1 100 10 30) = Some (mk_time 11 30) \<and>
   mk_time 10 0 \<in> set (get_horarios_disponibles cancha_central 100 [fila 1 100 10 30]) \<and>
   \<not> esta_disponible cancha_central 100 (mk_time 10 0) None [fila 1 100 10 30]"
proof -
  have "reachable db_inicial" unfolding db_inicial_def by (rule reachable.inicial)
  then have "reachable (ejecutar (Op_reserva_rapida (peticion_de 100 10 30)) db_inicial)"
    by (rule reachable.paso)
  then have r: "reachable (snd (reserva_rapida (peticion_de 100 10 30) db_inicial))" by simp
  have f: "hora_inicio (fila 1 100 10 30) = mk_time 10 30"
    "hora_fin (fila 1 100 10 30) = Some (mk_time 11 30)"
    by (simp_all add: fila_def)
  from r f hor_10 disp_10 show ?thesis by (simp add: rr_10_30)
qed

text \<open>
  C9, amended. When every confirmed reservation of the court and date starts on a whole
  hour \<open>h\<close> and ends at \<open>(h + 1) mod 24\<close> on the hour, a slot \<open>k\<close> of the operating
  window (8 to 21) is in \<^verbatim>\<open>get_horarios_disponibles\<close> exactly when \<^verbatim>\<open>esta_disponible\<close>
  holds for it, with the end time left out or given as \<open>k + 1\<close>.
\<close>

theorem horarios_equivale_disponible:
  assumes H: "\<forall>r \<in> set rows. cancha r = id_cancha c \<and> fecha_reserva r = f \<and> estado r = Confirmada \<longrightarrow>
               (\<exists>h. hora_inicio r = mk_time h 0 \<and> hora_fin r = Some (mk_time ((h + 1) mod 24) 0))"
    and k: "8 \<le> k" "k < 22"
  shows "(mk_time k 0 \<in> set (get_horarios_disponibles c f rows)) =
           esta_disponible c f (mk_time k 0) None rows \<and>
         esta_disponible c f (mk_time k 0) (Some (mk_time (k + 1) 0)) rows =
           esta_disponible c f (mk_time k 0) None rows"
proof (cases "activa c")
  case False
  then show ?thesis by (simp add: get_horarios_disponibles_def esta_disponible_def)
next
  case True
  have asum: "hora_fin_asumida (mk_time k 0) = mk_time (k + 1) 0"
    using k by (simp add: hora_fin_asumida_def mk_time_def)
  have row: "(time_lt (hora_inicio r) (mk_time (k + 1) 0) \<and> hora_fin_gt r (mk_time k 0))
             = (hora_inicio r = mk_time k 0)"
    if "r \<in> set (confirmadas_del_dia c f rows)" for r
  proof -
    from that H obtain h where h: "hora_inicio r = mk_time h 0"
      "hora_fin r = Some (mk_time ((h + 1) mod 24) 0)"
      by (auto simp: confirmadas_del_dia_def)
    show ?thesis
      using solapa_hora_entera[OF k(2), of h]
      by (simp add: h hora_fin_gt_def time_lt_mk_time mk_time_eq)
  qed
  have "k \<in> {8..<22}" using k by simp
  then have "mk_time k 0 \<in> (\<lambda>hora. mk_time hora 0) ` {8..<22}" by (rule imageI)
  then have mem: "(mk_time k 0 \<in> set (get_horarios_disponibles c f rows)) =
        (mk_time k 0 \<notin> hora_inicio ` set (confirmadas_del_dia c f rows))"
    unfolding set_horarios[OF True] by blast
  have libre: "(\<forall>r \<in> set (confirmadas_del_dia c f rows).
          \<not> (time_lt (hora_inicio r) (mk_time (k + 1) 0) \<and> hora_fin_gt r (mk_time k 0))) =
        (mk_time k 0 \<notin> hora_inicio ` set (confirmadas_del_dia c f rows))"
  proof -
    have "(\<forall>r \<in> set (confirmadas_del_dia c f rows).
          \<not> (time_lt (hora_inicio r) (mk_time (k + 1) 0) \<and> hora_fin_gt r (mk_time k 0))) =
        (\<forall>r \<in> set (confirmadas_del_dia c f rows). hora_inicio r \<noteq> mk_time k 0)"
      using row by blast
    also have "\<dots> = (mk_time k 0 \<notin> hora_inicio ` set (confirmadas_del_dia c f rows))"
      by force
    finally show ?thesis .
  qed
  have av: "esta_disponible c f (mk_time k 0) None rows =
        (mk_time k 0 \<notin> hora_inicio ` set (confirmadas_del_dia c f rows))"
    unfolding esta_disponible_conv using libre by (simp add: True asum)
  have av2: "esta_disponible c f (mk_time k 0) (Some (mk_time (k + 1) 0)) rows =
        (mk_time k 0 \<notin> hora_inicio ` set (confirmadas_del_dia c f rows))"
    unfolding esta_disponible_conv using libre by (simp add: True)
  from mem av av2 show ?thesis by simp
qed

theorem horarios_equivale_disponible_witness:
  "(mk_time 10 0 \<in> set (get_horarios_disponibles cancha_central 100 [fila 1 100 10 0])) =
       esta_disponible cancha_central 100 (mk_time 10 0) None [fila 1 100 10 0] \<and>
   \<not> esta_disponible cancha_central 100 (mk_time 10 0) None [fila 1 100 10 0] \<and>
   (mk_time 11 0 \<in> set (get_horarios_disponibles cancha_central 100 [fila 1 100 10 0])) =
       esta_disponible cancha_central 100 (mk_time 11 0) None [fila 1 100 10 0] \<and>
   esta_disponible cancha_central 100 (mk_time 11 0) None [fila 1 100 10 0]"
proof -
  have H: "\<forall>r \<in> set [fila 1 100 10 0]. cancha r = id_cancha cancha_central \<and> fecha_reserva r = 100 \<and>
             estado r = Confirmada \<longrightarrow>
             (\<exists>h. hora_inicio r = mk_time h 0 \<and> hora_fin r = Some (mk_time ((h + 1) mod 24) 0))"
  proof (intro ballI impI)
    fix r assume "r \<in> set [fila 1 100 10 0]"
    then have "r = fila 1 100 10 0" by simp
    then have "hora_inicio r = mk_time 10 0 \<and> hora_fin r = Some (mk_time ((10 + 1) mod 24) 0)"
      by (simp add: fila_def)
    then show "\<exists>h. hora_inicio r = mk_time h 0 \<and> hora_fin r = Some (mk_time ((h + 1) mod 24) 0)"
      by (rule exI)
  qed
  have d10: "\<not> esta_disponible cancha_central 100 (mk_time 10 0) None [fila 1 100 10 0]"
    by (simp add: esta_disponible_def confirmadas_del_dia_def hora_fin_asumida_def hora_fin_gt_def
      time_lt_def time_tuple_def fila_def mk_time_def cancha_central_def)
  have d11: "esta_disponible cancha_central 100 (mk_time 11 0) None [fila 1 100 10 0]"
    by (simp add: esta_disponible_def confirmadas_del_dia_def hora_fin_asumida_def hora_fin_gt_def
      time_lt_def time_tuple_def fila_def mk_time_def cancha_central_def)
  from horarios_equivale_disponible[OF H, of 10] horarios_equivale_disponible[OF H, of 11] d10 d11
  show ?thesis by simp
qed

section \<open>Quick booking without date and hour validation\<close>

text \<open>
  C10. \<^verbatim>\<open>reserva_rapida\<close> stores a confirmed reservation whenever the request is a POST
  for an active court with a readable date and time, the availability check passes and no
  confirmed reservation has the same court, date and start time. Neither the date nor the
  hour is validated: the booking succeeds also for a date before today and for an hour
  outside 8 to 21, which the validators of the booking form reject.
\<close>

theorem reserva_rapida_sin_validacion:
  assumes "metodo req = POST"
    and "get_cancha_activa (canchas s) (cancha_id req) = Some c"
    and "fecha req = Some f" and "strptime_hora (hora req) = Some t"
    and "esta_disponible c f t None (reservas s)"
    and "confirmadas_en (id_cancha c) f t (reservas s) = []"
  shows "\<exists>r. reserva_rapida req s = (Exito, s\<lparr>reservas := reservas s @ [r]\<rparr>) \<and>
             estado r = Confirmada \<and> cancha r = id_cancha c \<and> fecha_reserva r = f \<and>
             hora_inicio r = t \<and>
             (f < hoy \<longrightarrow> fecha_reserva r < hoy \<and> clean_fecha_reserva hoy f = Inl Fecha_pasada) \<and>
             (hour t < 8 \<or> 22 \<le> hour t \<longrightarrow> clean_hora_inicio t = Inl Fuera_de_horario)"
proof -
  from create_libre[OF assms(6), of "usuario req" "Some (tarifa_hora c)"]
  obtain r where r: "Reserva_objects_create c (usuario req) f t (kw_precio (Some (tarifa_hora c))) (reservas s)
        = Inr (r, reservas s @ [r])"
    "estado r = Confirmada" "cancha r = id_cancha c" "fecha_reserva r = f" "hora_inicio r = t"
    by blast
  have "reserva_rapida req s = (Exito, s\<lparr>reservas := reservas s @ [r]\<rparr>)"
    using assms(1-5) r(1) by (simp add: reserva_rapida_def)
  with r(2-5) show ?thesis
    by (auto simp: clean_fecha_reserva_def clean_hora_inicio_def)
qed

theorem reserva_rapida_sin_validacion_witness:
  "\<exists>r. reserva_rapida (peticion_de 99 3 0) db_inicial
          = (Exito, db_inicial\<lparr>reservas := reservas db_inicial @ [r]\<rparr>) \<and>
       estado r = Confirmada \<and> fecha_reserva r < 100 \<and> hour (hora_inicio r) < 8 \<and>
       clean_fecha_reserva 100 99 = Inl Fecha_pasada \<and>
       clean_hora_inicio (mk_time 3 0) = Inl Fuera_de_horario"
proof -
  have h: "metodo (peticion_de 99 3 0) = POST"
    "get_cancha_activa (canchas db_inicial) (cancha_id (peticion_de 99 3 0)) = Some cancha_central"
    "fecha (peticion_de 99 3 0) = Some 99"
    "strptime_hora (hora (peticion_de 99 3 0)) = Some (mk_time 3 0)"
    "esta_disponible cancha_central 99 (mk_time 3 0) None (reservas db_inicial)"
    "confirmadas_en (id_cancha cancha_central) 99 (mk_time 3 0) (reservas db_inicial) = []"
    by (simp_all add: peticion_de_def db_inicial_def get_cancha_activa_def cancha_central_def
        strptime_hora_def esta_disponible_def confirmadas_del_dia_def confirmadas_en_def)
  from reserva_rapida_sin_validacion[OF h, of 100] show ?thesis
    by (auto simp: mk_time_def)
qed

text \<open>
  C5. The booking form rejects yesterday's date and the start time 23:00; the quick booking
  stores a confirmed reservation for each.
\<close>

theorem reserva_rapida_fecha_pasada:
  "clean_fecha_reserva 100 99 = Inl Fecha_pasada \<and>
   reserva_rapida (peticion_de 99 10 0) db_inicial =
     (Exito, \<lparr>canchas = [cancha_central], reservas = [fila 1 99 10 0]\<rparr>) \<and>
   clean_hora_inicio (mk_time 23 0) = Inl Fuera_de_horario \<and>
   reserva_rapida (peticion_de 101 23 0) db_inicial =
     (Exito, \<lparr>canchas = [cancha_central], reservas = [fila 1 101 23 0]\<rparr>)"
  by (simp add: clean_fecha_reserva_def clean_hora_inicio_def
      reserva_rapida_def peticion_de_def db_inicial_def get_cancha_activa_def
      strptime_hora_def esta_disponible_def confirmadas_del_dia_def hora_fin_asumida_def
      fila_def eval_defs)

section \<open>The default end time\<close>

text \<open>
  C7. For the start 10:30 the specification's end is 11:30, and so are the end that
  \<^verbatim>\<open>Reserva.save\<close> stores and the end the booking form computes. The end that
  \<^verbatim>\<open>esta_disponible\<close> assumes is 11:00: the minutes are dropped, and the check passes
  against a confirmed reservation from 11:00 to 12:00 that the interval 10:30 to 11:30
  overlaps.
\<close>

theorem hora_fin_asumida_descarta_minutos:
  "computeEnd_spec (mk_time 10 30) = mk_time 11 30 \<and>
   hora_fin (save_defaults cancha_central (from_db ((fila 1 100 10 30)\<lparr>hora_fin := None\<rparr>)))
     = Some (mk_time 11 30) \<and>
   form_hora_fin (mk_time 10 30) = mk_time 11 30 \<and>
   hora_fin_asumida (mk_time 10 30) = mk_time 11 0 \<and>
   esta_disponible cancha_central 100 (mk_time 10 30) None [fila 1 100 11 0] \<and>
   \<not> esta_disponible cancha_central 100 (mk_time 10 30) (Some (computeEnd_spec (mk_time 10 30)))
       [fila 1 100 11 0]"
  by (simp add: computeEnd_spec_def save_defaults_def from_db_def to_decimal_def form_hora_fin_def
      hora_fin_asumida_def esta_disponible_def confirmadas_del_dia_def hora_fin_gt_def time_lt_def
      time_tuple_def fila_def mk_time_def cancha_central_def monto_de_inverse Let_def)

section \<open>At most one confirmed reservation per court, date and start time\<close>









section \<open>Concurrent quick bookings of one slot\<close>




lemma reserva_rapida_fases:
  "reserva_rapida req s =
     (case rr_verificar req s of
        Pendiente \<Rightarrow> (Error_crear, s)
      | Verificada c f t \<Rightarrow> rr_crear req c f t s
      | Terminada resp \<Rightarrow> (resp, s))"
  by (simp add: reserva_rapida_def rr_verificar_def rr_crear_def split: option.splits)












lemma rr_verificar_avance: "1 \<le> avance (rr_verificar req s)"
  by (simp add: rr_verificar_def split: option.splits)



lemma paso_hilo_mismo:
  assumes "i < length (snd cfg)" "i < length reqs"
  shows "min 2 (avance (snd cfg ! i) + 1) \<le> avance (snd (paso_hilo reqs i cfg) ! i)"
proof -
  obtain s fs where cfg: "cfg = (s, fs)" by (cases cfg)
  from assms have ifs: "i < length fs" by (simp add: cfg)
  show ?thesis
  proof (cases "fs ! i")
    case Pendiente
    with ifs assms(2) rr_verificar_avance[of "reqs ! i" s] show ?thesis
      by (simp add: cfg paso_hilo_def)
  next
    case (Verificada c f t)
    with ifs assms(2) show ?thesis
      by (simp add: cfg paso_hilo_def split: prod.splits)
  next
    case (Terminada resp)
    with ifs assms(2) show ?thesis
      by (simp add: cfg paso_hilo_def)
  qed
qed

lemma paso_hilo_mono: "avance (snd cfg ! j) \<le> avance (snd (paso_hilo reqs i cfg) ! j)"
proof (cases "j = i \<and> i < length (snd cfg) \<and> i < length reqs")
  case True
  have "avance (snd cfg ! i) \<le> 2" by (cases "snd cfg ! i") simp_all
  with paso_hilo_mismo[of i cfg reqs] True show ?thesis by simp
next
  case False
  then show ?thesis
    by (cases cfg) (auto simp: paso_hilo_def split: fase.splits prod.splits)
qed








end
